theory Spec2Isabelle
  imports Main "HOL-Library.Sublist"
begin

section \<open>Metadata access layer of govcd (metadata\_v2.go)\<close>

text \<open>
  The file builds one HTTP request per exported call and, for the synchronous variants of
  the mutations, waits for the returned task. The HTTP client, the task wait, the URL
  helpers and the constants of package \<open>types\<close> live outside the file; they are
  parameters of the model. Every call of a collaborator is recorded in a history, which is
  the only state: what a collaborator answers may depend on everything that happened
  before. A function of the file either returns or panics on a nil pointer.
\<close>

subsection \<open>Data of package types used by the file\<close>

text \<open>
  Only the fields that metadata\_v2.go reads or writes are kept; the others keep Go's
  zero value on every value built here. Pointer fields are options, \<open>None\<close> is nil.
  Go field names are prefixed with their struct, since several structs share them.
\<close>

record MetadataTypedValue =
  MetadataTypedValue_XsiType :: string
  MetadataTypedValue_Value :: string

record MetadataDomainTag =
  MetadataDomainTag_Visibility :: string
  MetadataDomainTag_Domain :: string

record MetadataValue =
  MetadataValue_Xmlns :: string
  MetadataValue_Xsi :: string
  MetadataValue_TypedValue :: "MetadataTypedValue option"
  MetadataValue_Domain :: "MetadataDomainTag option"

record MetadataEntry =
  MetadataEntry_Xmlns :: string
  MetadataEntry_Xsi :: string
  MetadataEntry_Key :: string
  MetadataEntry_TypedValue :: "MetadataTypedValue option"
  MetadataEntry_Domain :: "MetadataDomainTag option"

record Metadata =
  Metadata_Xmlns :: string
  Metadata_Xsi :: string
  Metadata_MetadataEntry :: "MetadataEntry list"

text \<open>The constants of package \<open>types\<close> that the file names; their values are not in it.\<close>

record types_consts =
  XMLNamespaceVCloud :: string
  XMLNamespaceXSI :: string
  MetadataReadWriteVisibility :: string
  MimeMetaData :: string
  MimeMetaDataValue :: string

definition MethodPut :: string where "MethodPut = ''PUT''"
definition MethodPost :: string where "MethodPost = ''POST''"
definition MethodDelete :: string where "MethodDelete = ''DELETE''"

subsection \<open>Errors, URLs, requests and the history\<close>

text \<open>A Go error is observed through its message, \<open>err.Error()\<close>.\<close>

datatype go_error = errorString (Error: string)

text \<open>
  How a call ends: it returns its Go results, or it panics with the runtime error of a
  nil pointer dereference, which no function of the file recovers.
\<close>

datatype 'a outcome = NilDereference | Returned 'a

text \<open>
  \<open>url.URL\<close>: the file touches the field \<open>Path\<close> only; everything else the parser
  found is carried along in \<open>URL_rest\<close>.
\<close>

record 'u URL =
  URL_Path :: string
  URL_rest :: 'u

text \<open>The \<open>payload interface{}\<close> argument of the client: nil or one of the two bodies.\<close>

datatype payload =
  payload_nil
  | payload_MetadataValue MetadataValue
  | payload_Metadata Metadata

text \<open>The arguments of one \<open>ExecuteRequest\<close> or \<open>ExecuteTaskRequest\<close> call.\<close>

record request =
  pathURL :: string
  requestType :: string
  contentType :: string
  errorMessage :: string
  request_payload :: payload

datatype 't event =
  TaskRequested request
  | Requested request
  | Waited 't

type_synonym 't history = "'t event list"

text \<open>
  \<open>Client\<close>: what the server answers to a request after a given history. A task request
  answers a task and an error (nil is \<open>None\<close>); a plain request decodes the response
  body into the \<open>out\<close> argument, a \<open>*MetadataValue\<close> or a \<open>*Metadata\<close> in this file.
\<close>

record 't Client =
  taskAnswer :: "request \<Rightarrow> 't history \<Rightarrow> 't \<times> go_error option"
  decodeMetadataValue :: "request \<Rightarrow> 't history \<Rightarrow> MetadataValue \<Rightarrow> MetadataValue \<times> go_error option"
  decodeMetadata :: "request \<Rightarrow> 't history \<Rightarrow> Metadata \<Rightarrow> Metadata \<times> go_error option"

text \<open>
  The rest of package govcd that the file calls: the two URL helpers, \<open>url.URL.String\<close>,
  and the outcome of \<open>Task.WaitTaskCompletion\<close> (the polling is inside it).
  \<open>urlParseRequestURI\<close> returns a \<open>*url.URL\<close>, which is nil (\<open>None\<close>) for an href
  that does not parse.
\<close>

record ('t, 'u) govcd_env =
  types :: types_consts
  urlParseRequestURI :: "string \<Rightarrow> 'u URL option"
  URL_String :: "'u URL \<Rightarrow> string"
  getAdminURL :: "string \<Rightarrow> string"
  waitAnswer :: "'t \<Rightarrow> 't history \<Rightarrow> go_error option"

definition ExecuteTaskRequest ::
  "'t Client \<Rightarrow> string \<Rightarrow> string \<Rightarrow> string \<Rightarrow> string \<Rightarrow> payload \<Rightarrow> 't history
    \<Rightarrow> ('t \<times> go_error option) \<times> 't history" where
  "ExecuteTaskRequest client url verb ctype msg body h =
     (let r = \<lparr>pathURL = url, requestType = verb, contentType = ctype, errorMessage = msg,
                request_payload = body\<rparr>
      in (taskAnswer client r h, h @ [TaskRequested r]))"



definition WaitTaskCompletion ::
  "('t, 'u) govcd_env \<Rightarrow> 't \<Rightarrow> 't history \<Rightarrow> go_error option \<times> 't history" where
  "WaitTaskCompletion env task h = (waitAnswer env task h, h @ [Waited task])"

subsection \<open>Generic private functions\<close>



text \<open>
  \<open>addMetadata\<close>. \<open>tag\<close> is the \<open>MetadataDomainTag\<close> that \<open>newMetadata.Domain\<close> points to;
  the two assignments of the else branch update it before the request is sent. The local
  that the source calls \<open>domain\<close> is read from the field \<open>Visibility\<close> of that tag.
  \<open>fmt.Errorf\<close> with \<open>%s\<close> verbs builds a new error from the formatted string.
  The result of \<open>urlParseRequestURI\<close> is dereferenced unguarded by
  \<open>apiEndpoint.Path += ...\<close>: on nil the call panics there, before any request.
\<close>

definition addMetadata ::
  "('t, 'u) govcd_env \<Rightarrow> 't Client \<Rightarrow> string \<Rightarrow> string \<Rightarrow> string \<Rightarrow> string \<Rightarrow> string \<Rightarrow> bool
    \<Rightarrow> 't history \<Rightarrow> ('t \<times> go_error option) outcome \<times> 't history" where
  "addMetadata env client requestUri key val typedValue visibility isSystem h =
     (let apiEndpoint = urlParseRequestURI env requestUri;
          tag = \<lparr>MetadataDomainTag_Visibility = visibility, MetadataDomainTag_Domain = ''SYSTEM''\<rparr>
      in case apiEndpoint of
           None \<Rightarrow> (NilDereference, h)
         | Some apiEndpoint \<Rightarrow>
     (let (apiEndpoint, tag) =
            (if isSystem
             then (apiEndpoint\<lparr>URL_Path := URL_Path apiEndpoint @ ''/metadata/SYSTEM/'' @ key\<rparr>, tag)
             else (apiEndpoint\<lparr>URL_Path := URL_Path apiEndpoint @ ''/metadata/'' @ key\<rparr>,
                   (let tag = tag\<lparr>MetadataDomainTag_Domain := ''GENERAL''\<rparr>
                    in if visibility \<noteq> MetadataReadWriteVisibility (types env)
                       then tag\<lparr>MetadataDomainTag_Visibility := MetadataReadWriteVisibility (types env)\<rparr>
                       else tag)));
          newMetadata = \<lparr>MetadataValue_Xmlns = XMLNamespaceVCloud (types env),
                         MetadataValue_Xsi = XMLNamespaceXSI (types env),
                         MetadataValue_TypedValue =
                           Some \<lparr>MetadataTypedValue_XsiType = typedValue,
                                 MetadataTypedValue_Value = val\<rparr>,
                         MetadataValue_Domain = Some tag\<rparr>;
          domain = MetadataDomainTag_Visibility tag;
          ((task, err), h') =
            ExecuteTaskRequest client (URL_String env apiEndpoint) MethodPut
              (MimeMetaDataValue (types env)) ''error adding metadata: %s''
              (payload_MetadataValue newMetadata) h;
          err = (case err of
                   None \<Rightarrow> None
                 | Some e \<Rightarrow>
                     if suffix ''visibility'' (Error e)
                     then Some (errorString (''error adding metadata with key '' @ key
                            @ '': visibility cannot be '' @ visibility
                            @ '' when domain is '' @ domain @ '': '' @ Error e))
                     else Some e)
      in (Returned (task, err), h')))"

definition addMetadataAndWait ::
  "('t, 'u) govcd_env \<Rightarrow> 't Client \<Rightarrow> string \<Rightarrow> string \<Rightarrow> string \<Rightarrow> string \<Rightarrow> string \<Rightarrow> bool
    \<Rightarrow> 't history \<Rightarrow> go_error option outcome \<times> 't history" where
  "addMetadataAndWait env client requestUri key val typedValue visibility isSystem h =
     (case addMetadata env client requestUri key val typedValue visibility isSystem h of
        (NilDereference, h') \<Rightarrow> (NilDereference, h')
      | (Returned (task, Some err), h') \<Rightarrow> (Returned (Some err), h')
      | (Returned (task, None), h') \<Rightarrow>
          (let (err, h'') = WaitTaskCompletion env task h' in (Returned err, h'')))"

text \<open>
  \<open>mergeAllMetadata\<close>. A Go map holds each key once and \<open>range\<close> visits every item once,
  in an order the runtime chooses: the map argument is the list of its items in the order
  of the visit. The loop appends one entry per visited item. The payload is built first;
  then the href is parsed and the result dereferenced, with a panic on nil.
\<close>

fun mergeAllMetadata_range ::
  "('t, 'u) govcd_env \<Rightarrow> (string \<times> MetadataValue) list \<Rightarrow> MetadataEntry list \<Rightarrow> MetadataEntry list" where
  "mergeAllMetadata_range env [] metadataToMerge = metadataToMerge"
| "mergeAllMetadata_range env ((key, val) # rest) metadataToMerge =
     mergeAllMetadata_range env rest
       (metadataToMerge @
         [\<lparr>MetadataEntry_Xmlns = XMLNamespaceVCloud (types env),
           MetadataEntry_Xsi = XMLNamespaceXSI (types env),
           MetadataEntry_Key = key,
           MetadataEntry_TypedValue = MetadataValue_TypedValue val,
           MetadataEntry_Domain = MetadataValue_Domain val\<rparr>])"

definition mergeAllMetadata ::
  "('t, 'u) govcd_env \<Rightarrow> 't Client \<Rightarrow> string \<Rightarrow> (string \<times> MetadataValue) list
    \<Rightarrow> 't history \<Rightarrow> ('t \<times> go_error option) outcome \<times> 't history" where
  "mergeAllMetadata env client requestUri metadata h =
     (let metadataToMerge = mergeAllMetadata_range env metadata [];
          newMetadata = \<lparr>Metadata_Xmlns = XMLNamespaceVCloud (types env),
                         Metadata_Xsi = XMLNamespaceXSI (types env),
                         Metadata_MetadataEntry = metadataToMerge\<rparr>;
          apiEndpoint = urlParseRequestURI env requestUri
      in case apiEndpoint of
           None \<Rightarrow> (NilDereference, h)
         | Some apiEndpoint \<Rightarrow>
     (let apiEndpoint = apiEndpoint\<lparr>URL_Path := URL_Path apiEndpoint @ ''/metadata''\<rparr>;
          (res, h') =
            ExecuteTaskRequest client (URL_String env apiEndpoint) MethodPost
              (MimeMetaData (types env)) ''error adding metadata: %s''
              (payload_Metadata newMetadata) h
      in (Returned res, h')))"

definition mergeMetadataAndWait ::
  "('t, 'u) govcd_env \<Rightarrow> 't Client \<Rightarrow> string \<Rightarrow> (string \<times> MetadataValue) list
    \<Rightarrow> 't history \<Rightarrow> go_error option outcome \<times> 't history" where
  "mergeMetadataAndWait env client requestUri metadata h =
     (case mergeAllMetadata env client requestUri metadata h of
        (NilDereference, h') \<Rightarrow> (NilDereference, h')
      | (Returned (task, Some err), h') \<Rightarrow> (Returned (Some err), h')
      | (Returned (task, None), h') \<Rightarrow>
          (let (err, h'') = WaitTaskCompletion env task h' in (Returned err, h'')))"

definition deleteMetadata ::
  "('t, 'u) govcd_env \<Rightarrow> 't Client \<Rightarrow> string \<Rightarrow> string \<Rightarrow> bool
    \<Rightarrow> 't history \<Rightarrow> ('t \<times> go_error option) outcome \<times> 't history" where
  "deleteMetadata env client requestUri key isSystem h =
     (let apiEndpoint = urlParseRequestURI env requestUri
      in case apiEndpoint of
           None \<Rightarrow> (NilDereference, h)
         | Some apiEndpoint \<Rightarrow>
     (let apiEndpoint =
            (if isSystem
             then apiEndpoint\<lparr>URL_Path := URL_Path apiEndpoint @ ''/metadata/SYSTEM/'' @ key\<rparr>
             else apiEndpoint\<lparr>URL_Path := URL_Path apiEndpoint @ ''/metadata/'' @ key\<rparr>);
          (res, h') =
            ExecuteTaskRequest client (URL_String env apiEndpoint) MethodDelete ''''
              ''error deleting metadata: %s'' payload_nil h
      in (Returned res, h')))"

definition deleteMetadataAndWait ::
  "('t, 'u) govcd_env \<Rightarrow> 't Client \<Rightarrow> string \<Rightarrow> string \<Rightarrow> bool
    \<Rightarrow> 't history \<Rightarrow> go_error option outcome \<times> 't history" where
  "deleteMetadataAndWait env client requestUri key isSystem h =
     (case deleteMetadata env client requestUri key isSystem h of
        (NilDereference, h') \<Rightarrow> (NilDereference, h')
      | (Returned (task, Some err), h') \<Rightarrow> (Returned (Some err), h')
      | (Returned (task, None), h') \<Rightarrow>
          (let (err, h'') = WaitTaskCompletion env task h' in (Returned err, h'')))"

subsection \<open>The methods of AdminVdc and OrgVDCNetwork\<close>













subsection \<open>Observations on a history\<close>

text \<open>The URLs of the requests of a history, in the order they were sent.\<close>

fun requested_urls :: "'t history \<Rightarrow> string list" where
  "requested_urls [] = []"
| "requested_urls (TaskRequested r # es) = pathURL r # requested_urls es"
| "requested_urls (Requested r # es) = pathURL r # requested_urls es"
| "requested_urls (Waited task # es) = requested_urls es"

text \<open>
  The URL that \<open>addMetadata\<close>, \<open>mergeAllMetadata\<close> and \<open>deleteMetadata\<close> build from
  an href and a path suffix: parse, append to \<open>Path\<close>, \<open>String()\<close>. \<open>None\<close> when the
  href does not parse and no URL is built.
\<close>

definition built_url :: "('t, 'u) govcd_env \<Rightarrow> string \<Rightarrow> string \<Rightarrow> string option" where
  "built_url env requestUri p =
     (case urlParseRequestURI env requestUri of
        None \<Rightarrow> None
      | Some apiEndpoint \<Rightarrow>
          Some (URL_String env (apiEndpoint\<lparr>URL_Path := URL_Path apiEndpoint @ p\<rparr>)))"


text \<open>
  A caller that runs an asynchronous call and then waits for its task, as
  \<open>DeleteMetadataEntryWithDomainByHref\<close> does: an error of the call is returned without
  waiting.
\<close>

definition then_wait ::
  "('t, 'u) govcd_env \<Rightarrow> ('t \<times> go_error option) outcome \<times> 't history
    \<Rightarrow> go_error option outcome \<times> 't history" where
  "then_wait env res =
     (case res of
        (NilDereference, h') \<Rightarrow> (NilDereference, h')
      | (Returned (task, Some err), h') \<Rightarrow> (Returned (Some err), h')
      | (Returned (task, None), h') \<Rightarrow>
          (let (err, h'') = WaitTaskCompletion env task h' in (Returned err, h'')))"

subsection \<open>A sample environment\<close>

text \<open>
  Concrete collaborators on which the theorems below are instantiated. The sample parser
  knows absolute paths: an href that starts with a slash parses and is kept as text.
  Every other href is rejected; among them are the empty string and a path without
  scheme and leading slash, which \<open>url.ParseRequestURI\<close> rejects too (hrefs with a
  scheme are not used below). Tasks are numbers, the admin URL of the sample resources
  inserts the \<open>admin\<close> segment after \<open>/api/\<close>, one client accepts every task request,
  the other answers the server's visibility failure, and the task number 8 fails when
  waited for.
\<close>

definition sample_types :: types_consts where
  "sample_types =
     \<lparr>XMLNamespaceVCloud = ''http://www.vmware.com/vcloud/v1.5'',
       XMLNamespaceXSI = ''http://www.w3.org/2001/XMLSchema-instance'',
       MetadataReadWriteVisibility = ''READWRITE'',
       MimeMetaData = ''application/vnd.vmware.vcloud.metadata+xml'',
       MimeMetaDataValue = ''application/vnd.vmware.vcloud.metadata.value+xml''\<rparr>"

definition sample_env :: "(nat, unit) govcd_env" where
  "sample_env =
     \<lparr>types = sample_types,
       urlParseRequestURI =
         (\<lambda>href. if prefix ''/'' href then Some \<lparr>URL_Path = href, URL_rest = ()\<rparr> else None),
       URL_String = URL_Path,
       getAdminURL =
         (\<lambda>href. if href = ''/api/vdc/5'' then ''/api/admin/vdc/5''
                  else if href = ''/api/network/7'' then ''/api/admin/network/7''
                  else if href = ''vcd.example.com/api/vdc/5''
                    then ''vcd.example.com/api/admin/vdc/5''
                  else if href = ''vcd.example.com/api/network/7''
                    then ''vcd.example.com/api/admin/network/7''
                  else href),
       waitAnswer = (\<lambda>task h. if task = 8 then Some (errorString ''task failed'') else None)\<rparr>"

definition accepting_client :: "nat Client" where
  "accepting_client =
     \<lparr>taskAnswer = (\<lambda>r h. (if requestType r = ''DELETE'' then 8 else 7, None)),
       decodeMetadataValue = (\<lambda>r h out. (out, None)),
       decodeMetadata = (\<lambda>r h out. (out, None))\<rparr>"

definition rejecting_client :: "nat Client" where
  "rejecting_client =
     \<lparr>taskAnswer = (\<lambda>r h. (0, Some (errorString ''API Error: 500: [ 0 ] visibility''))),
       decodeMetadataValue = (\<lambda>r h out. (out, None)),
       decodeMetadata = (\<lambda>r h out. (out, None))\<rparr>"

text \<open>
  A sample map of two items; the second pairs the system domain with the read-write
  visibility, which \<open>addMetadata\<close> would not send.
\<close>

definition sample_metadata :: "(string \<times> MetadataValue) list" where
  "sample_metadata =
     [(''env'', \<lparr>MetadataValue_Xmlns = '''', MetadataValue_Xsi = '''',
                 MetadataValue_TypedValue =
                   Some \<lparr>MetadataTypedValue_XsiType = ''MetadataStringValue'',
                         MetadataTypedValue_Value = ''prod''\<rparr>,
                 MetadataValue_Domain =
                   Some \<lparr>MetadataDomainTag_Visibility = ''READWRITE'',
                         MetadataDomainTag_Domain = ''GENERAL''\<rparr>\<rparr>),
      (''tier'', \<lparr>MetadataValue_Xmlns = '''', MetadataValue_Xsi = '''',
                  MetadataValue_TypedValue =
                    Some \<lparr>MetadataTypedValue_XsiType = ''MetadataNumberValue'',
                          MetadataTypedValue_Value = ''3''\<rparr>,
                  MetadataValue_Domain =
                    Some \<lparr>MetadataDomainTag_Visibility = ''READWRITE'',
                          MetadataDomainTag_Domain = ''SYSTEM''\<rparr>\<rparr>)]"

section \<open>Properties\<close>

subsection \<open>Shared lemmas\<close>

lemma requested_urls_append [simp]:
  "requested_urls (h @ h') = requested_urls h @ requested_urls h'"
  by (induction h rule: requested_urls.induct) simp_all

lemma mergeAllMetadata_range_eq:
  "mergeAllMetadata_range env metadata metadataToMerge =
     metadataToMerge @ map (\<lambda>(key, val).
        \<lparr>MetadataEntry_Xmlns = XMLNamespaceVCloud (types env),
          MetadataEntry_Xsi = XMLNamespaceXSI (types env),
          MetadataEntry_Key = key,
          MetadataEntry_TypedValue = MetadataValue_TypedValue val,
          MetadataEntry_Domain = MetadataValue_Domain val\<rparr>) metadata"
  by (induction env metadata metadataToMerge rule: mergeAllMetadata_range.induct) simp_all

text \<open>What each of the three mutations does, on an href that parses and on one that does not.\<close>

lemma addMetadata_eq:
  "addMetadata env client href key val typedValue visibility isSystem h =
     (case built_url env href ((if isSystem then ''/metadata/SYSTEM/'' else ''/metadata/'') @ key) of
        None \<Rightarrow> (NilDereference, h)
      | Some url \<Rightarrow>
          (let r = \<lparr>pathURL = url, requestType = ''PUT'',
                     contentType = MimeMetaDataValue (types env),
                     errorMessage = ''error adding metadata: %s'',
                     request_payload = payload_MetadataValue
                       \<lparr>MetadataValue_Xmlns = XMLNamespaceVCloud (types env),
                         MetadataValue_Xsi = XMLNamespaceXSI (types env),
                         MetadataValue_TypedValue =
                           Some \<lparr>MetadataTypedValue_XsiType = typedValue,
                                 MetadataTypedValue_Value = val\<rparr>,
                         MetadataValue_Domain =
                           Some \<lparr>MetadataDomainTag_Visibility =
                                   (if isSystem then visibility
                                    else MetadataReadWriteVisibility (types env)),
                                 MetadataDomainTag_Domain =
                                   (if isSystem then ''SYSTEM'' else ''GENERAL'')\<rparr>\<rparr>\<rparr>
           in (Returned
                 (case taskAnswer client r h of
                    (task, None) \<Rightarrow> (task, None)
                  | (task, Some e) \<Rightarrow>
                      if suffix ''visibility'' (Error e)
                      then (task, Some (errorString (''error adding metadata with key '' @ key
                             @ '': visibility cannot be '' @ visibility @ '' when domain is ''
                             @ (if isSystem then visibility
                                else MetadataReadWriteVisibility (types env))
                             @ '': '' @ Error e)))
                      else (task, Some e)),
               h @ [TaskRequested r])))"
  by (simp add: addMetadata_def built_url_def ExecuteTaskRequest_def MethodPut_def Let_def
      split: prod.splits option.splits)

lemma mergeAllMetadata_eq:
  "mergeAllMetadata env client href metadata h =
     (case built_url env href ''/metadata'' of
        None \<Rightarrow> (NilDereference, h)
      | Some url \<Rightarrow>
          (let r = \<lparr>pathURL = url, requestType = ''POST'',
                     contentType = MimeMetaData (types env),
                     errorMessage = ''error adding metadata: %s'',
                     request_payload = payload_Metadata
                       \<lparr>Metadata_Xmlns = XMLNamespaceVCloud (types env),
                         Metadata_Xsi = XMLNamespaceXSI (types env),
                         Metadata_MetadataEntry =
                           map (\<lambda>(key, val).
                             \<lparr>MetadataEntry_Xmlns = XMLNamespaceVCloud (types env),
                               MetadataEntry_Xsi = XMLNamespaceXSI (types env),
                               MetadataEntry_Key = key,
                               MetadataEntry_TypedValue = MetadataValue_TypedValue val,
                               MetadataEntry_Domain = MetadataValue_Domain val\<rparr>) metadata\<rparr>\<rparr>
           in (Returned (taskAnswer client r h), h @ [TaskRequested r])))"
  by (simp add: mergeAllMetadata_def built_url_def ExecuteTaskRequest_def MethodPost_def Let_def
      mergeAllMetadata_range_eq split: option.splits)

lemma deleteMetadata_eq:
  "deleteMetadata env client href key isSystem h =
     (case built_url env href ((if isSystem then ''/metadata/SYSTEM/'' else ''/metadata/'') @ key) of
        None \<Rightarrow> (NilDereference, h)
      | Some url \<Rightarrow>
          (let r = \<lparr>pathURL = url, requestType = ''DELETE'', contentType = '''',
                     errorMessage = ''error deleting metadata: %s'',
                     request_payload = payload_nil\<rparr>
           in (Returned (taskAnswer client r h), h @ [TaskRequested r])))"
  by (simp add: deleteMetadata_def built_url_def ExecuteTaskRequest_def MethodDelete_def Let_def
      split: option.splits)

lemma built_url_Some:
  "urlParseRequestURI env href = Some u \<Longrightarrow>
     built_url env href p = Some (URL_String env (u\<lparr>URL_Path := URL_Path u @ p\<rparr>))"
  by (simp add: built_url_def)

text \<open>The three wrappers are their asynchronous call followed by the wait.\<close>

lemma addMetadataAndWait_then_wait:
  "addMetadataAndWait env client href key val typedValue visibility isSystem h =
     then_wait env (addMetadata env client href key val typedValue visibility isSystem h)"
  by (simp add: addMetadataAndWait_def then_wait_def)

lemma mergeMetadataAndWait_then_wait:
  "mergeMetadataAndWait env client href metadata h =
     then_wait env (mergeAllMetadata env client href metadata h)"
  by (simp add: mergeMetadataAndWait_def then_wait_def)

lemma deleteMetadataAndWait_then_wait:
  "deleteMetadataAndWait env client href key isSystem h =
     then_wait env (deleteMetadata env client href key isSystem h)"
  by (simp add: deleteMetadataAndWait_def then_wait_def)

lemma then_wait_simps:
  "then_wait env (NilDereference, h) = (NilDereference, h)"
  "then_wait env (Returned (task, Some err), h) = (Returned (Some err), h)"
  "then_wait env (Returned (task, None), h) = (Returned (waitAnswer env task h), h @ [Waited task])"
  by (simp_all add: then_wait_def WaitTaskCompletion_def)






text \<open>The sample parser.\<close>

lemma sample_parse:
  "urlParseRequestURI sample_env (CHR ''/'' # cs) = Some \<lparr>URL_Path = CHR ''/'' # cs, URL_rest = ()\<rparr>"
  "urlParseRequestURI sample_env '''' = None"
  "c \<noteq> CHR ''/'' \<Longrightarrow> urlParseRequestURI sample_env (c # cs) = None"
  by (simp_all add: sample_env_def)

lemma sample_built_url:
  "built_url sample_env (CHR ''/'' # cs) p = Some (CHR ''/'' # cs @ p)"
  "built_url sample_env '''' p = None"
  "c \<noteq> CHR ''/'' \<Longrightarrow> built_url sample_env (c # cs) p = None"
  by (simp_all add: built_url_def sample_env_def)

subsection \<open>Add\<close>

text \<open>
  C2. As stated, for every href, the claim fails: on an href that does not parse, such
  as the empty string, \<open>urlParseRequestURI\<close> returns nil and \<open>addMetadata\<close> panics on it
  before any request.
\<close>

theorem addMetadata_general_unparsed_href_panics:
  "addMetadata sample_env accepting_client '''' ''env'' ''prod'' ''MetadataStringValue''
     ''READONLY'' False [] = (NilDereference, [])"
  by (simp add: addMetadata_eq sample_built_url)

text \<open>
  C2, amended. For every href that \<open>urlParseRequestURI\<close> parses, and every key, value,
  typed value and visibility, \<open>addMetadata\<close> with \<open>isSystem = false\<close> returns after
  exactly one request: a PUT whose URL is the parsed href with \<open>/metadata/<key>\<close>
  appended to its path, and whose body has the domain tag \<open>GENERAL\<close> with the read-write
  visibility, not the visibility that was passed.
\<close>

theorem addMetadata_general_request:
  "urlParseRequestURI env href = Some u \<Longrightarrow>
   \<exists>res. addMetadata env client href key val typedValue visibility False h =
     (Returned res,
      h @ [TaskRequested
           \<lparr>pathURL = URL_String env (u\<lparr>URL_Path := URL_Path u @ ''/metadata/'' @ key\<rparr>),
             requestType = ''PUT'',
             contentType = MimeMetaDataValue (types env),
             errorMessage = ''error adding metadata: %s'',
             request_payload = payload_MetadataValue
               \<lparr>MetadataValue_Xmlns = XMLNamespaceVCloud (types env),
                 MetadataValue_Xsi = XMLNamespaceXSI (types env),
                 MetadataValue_TypedValue =
                   Some \<lparr>MetadataTypedValue_XsiType = typedValue, MetadataTypedValue_Value = val\<rparr>,
                 MetadataValue_Domain =
                   Some \<lparr>MetadataDomainTag_Visibility = MetadataReadWriteVisibility (types env),
                         MetadataDomainTag_Domain = ''GENERAL''\<rparr>\<rparr>\<rparr>])"
  by (simp add: addMetadata_eq built_url_Some Let_def)

text \<open>On the sample resource \<open>/api/vdc/5\<close>, with the visibility \<open>READONLY\<close> passed.\<close>

theorem addMetadata_general_request_witness:
  "urlParseRequestURI sample_env ''/api/vdc/5'' = Some \<lparr>URL_Path = ''/api/vdc/5'', URL_rest = ()\<rparr>
   \<and> (\<exists>res. addMetadata sample_env accepting_client ''/api/vdc/5'' ''env'' ''prod''
               ''MetadataStringValue'' ''READONLY'' False [] =
     (Returned res,
      [TaskRequested
           \<lparr>pathURL = ''/api/vdc/5/metadata/env'',
             requestType = ''PUT'',
             contentType = MimeMetaDataValue sample_types,
             errorMessage = ''error adding metadata: %s'',
             request_payload = payload_MetadataValue
               \<lparr>MetadataValue_Xmlns = XMLNamespaceVCloud sample_types,
                 MetadataValue_Xsi = XMLNamespaceXSI sample_types,
                 MetadataValue_TypedValue =
                   Some \<lparr>MetadataTypedValue_XsiType = ''MetadataStringValue'',
                         MetadataTypedValue_Value = ''prod''\<rparr>,
                 MetadataValue_Domain =
                   Some \<lparr>MetadataDomainTag_Visibility = ''READWRITE'',
                         MetadataDomainTag_Domain = ''GENERAL''\<rparr>\<rparr>\<rparr>]))"
proof -
  have p: "urlParseRequestURI sample_env ''/api/vdc/5''
             = Some \<lparr>URL_Path = ''/api/vdc/5'', URL_rest = ()\<rparr>"
    by (simp add: sample_parse)
  show ?thesis
    using p addMetadata_general_request [OF p, of accepting_client "''env''" "''prod''"
        "''MetadataStringValue''" "''READONLY''" "[]"]
    by (simp add: sample_env_def sample_types_def)
qed

text \<open>
  C3. As stated, for every href, the claim fails in the same way: with
  \<open>isSystem = true\<close> too, \<open>addMetadata\<close> panics on an href that does not parse and
  sends nothing.
\<close>

theorem addMetadata_system_unparsed_href_panics:
  "addMetadata sample_env accepting_client '''' ''secret'' ''x'' ''MetadataStringValue''
     ''READONLY'' True [] = (NilDereference, [])"
  by (simp add: addMetadata_eq sample_built_url)

text \<open>
  C3, amended. For every href that \<open>urlParseRequestURI\<close> parses, and every key, value,
  typed value and visibility, \<open>addMetadata\<close> with \<open>isSystem = true\<close> returns after
  exactly one request: a PUT whose URL is the parsed href with \<open>/metadata/SYSTEM/<key>\<close>
  appended to its path, and whose body has the domain tag \<open>SYSTEM\<close> and the visibility
  exactly as the caller passed it.
\<close>

theorem addMetadata_system_request:
  "urlParseRequestURI env href = Some u \<Longrightarrow>
   \<exists>res. addMetadata env client href key val typedValue visibility True h =
     (Returned res,
      h @ [TaskRequested
           \<lparr>pathURL = URL_String env (u\<lparr>URL_Path := URL_Path u @ ''/metadata/SYSTEM/'' @ key\<rparr>),
             requestType = ''PUT'',
             contentType = MimeMetaDataValue (types env),
             errorMessage = ''error adding metadata: %s'',
             request_payload = payload_MetadataValue
               \<lparr>MetadataValue_Xmlns = XMLNamespaceVCloud (types env),
                 MetadataValue_Xsi = XMLNamespaceXSI (types env),
                 MetadataValue_TypedValue =
                   Some \<lparr>MetadataTypedValue_XsiType = typedValue, MetadataTypedValue_Value = val\<rparr>,
                 MetadataValue_Domain =
                   Some \<lparr>MetadataDomainTag_Visibility = visibility,
                         MetadataDomainTag_Domain = ''SYSTEM''\<rparr>\<rparr>\<rparr>])"
  by (simp add: addMetadata_eq built_url_Some Let_def)

text \<open>On the sample resource \<open>/api/vdc/5\<close>, with the visibility \<open>PRIVATE\<close> passed.\<close>

theorem addMetadata_system_request_witness:
  "urlParseRequestURI sample_env ''/api/vdc/5'' = Some \<lparr>URL_Path = ''/api/vdc/5'', URL_rest = ()\<rparr>
   \<and> (\<exists>res. addMetadata sample_env accepting_client ''/api/vdc/5'' ''secret'' ''x''
               ''MetadataStringValue'' ''PRIVATE'' True [] =
     (Returned res,
      [TaskRequested
           \<lparr>pathURL = ''/api/vdc/5/metadata/SYSTEM/secret'',
             requestType = ''PUT'',
             contentType = MimeMetaDataValue sample_types,
             errorMessage = ''error adding metadata: %s'',
             request_payload = payload_MetadataValue
               \<lparr>MetadataValue_Xmlns = XMLNamespaceVCloud sample_types,
                 MetadataValue_Xsi = XMLNamespaceXSI sample_types,
                 MetadataValue_TypedValue =
                   Some \<lparr>MetadataTypedValue_XsiType = ''MetadataStringValue'',
                         MetadataTypedValue_Value = ''x''\<rparr>,
                 MetadataValue_Domain =
                   Some \<lparr>MetadataDomainTag_Visibility = ''PRIVATE'',
                         MetadataDomainTag_Domain = ''SYSTEM''\<rparr>\<rparr>\<rparr>]))"
proof -
  have p: "urlParseRequestURI sample_env ''/api/vdc/5''
             = Some \<lparr>URL_Path = ''/api/vdc/5'', URL_rest = ()\<rparr>"
    by (simp add: sample_parse)
  show ?thesis
    using p addMetadata_system_request [OF p, of accepting_client "''secret''" "''x''"
        "''MetadataStringValue''" "''PRIVATE''" "[]"]
    by (simp add: sample_env_def sample_types_def)
qed

subsection \<open>Merge\<close>

text \<open>
  C4. As stated, for every href and map, the claim fails: the payload is built, but on an
  href that does not parse \<open>mergeAllMetadata\<close> panics on the nil URL and the POST is
  not issued.
\<close>

theorem mergeAllMetadata_unparsed_href_panics:
  "mergeAllMetadata sample_env accepting_client '''' sample_metadata [] = (NilDereference, [])"
  by (simp add: mergeAllMetadata_eq sample_built_url)

text \<open>
  C4, amended. For every href that \<open>urlParseRequestURI\<close> parses and every map,
  \<open>mergeAllMetadata\<close> returns after exactly one request: a POST whose URL is the parsed
  href with \<open>/metadata\<close> appended to its path (no key segment), and whose body lists one
  entry per item of the map, in the order of the visit, each with the key of the item and
  with the typed value and the domain of the item as they were passed.
\<close>

theorem mergeAllMetadata_request:
  "urlParseRequestURI env href = Some u \<Longrightarrow>
   \<exists>res. mergeAllMetadata env client href metadata h =
     (Returned res,
      h @ [TaskRequested
           \<lparr>pathURL = URL_String env (u\<lparr>URL_Path := URL_Path u @ ''/metadata''\<rparr>),
             requestType = ''POST'',
             contentType = MimeMetaData (types env),
             errorMessage = ''error adding metadata: %s'',
             request_payload = payload_Metadata
               \<lparr>Metadata_Xmlns = XMLNamespaceVCloud (types env),
                 Metadata_Xsi = XMLNamespaceXSI (types env),
                 Metadata_MetadataEntry =
                   map (\<lambda>(key, val).
                     \<lparr>MetadataEntry_Xmlns = XMLNamespaceVCloud (types env),
                       MetadataEntry_Xsi = XMLNamespaceXSI (types env),
                       MetadataEntry_Key = key,
                       MetadataEntry_TypedValue = MetadataValue_TypedValue val,
                       MetadataEntry_Domain = MetadataValue_Domain val\<rparr>) metadata\<rparr>\<rparr>])"
  by (simp add: mergeAllMetadata_eq built_url_Some Let_def)

text \<open>On the sample resource \<open>/api/vdc/5\<close>, with the sample map of two items.\<close>

theorem mergeAllMetadata_request_witness:
  "urlParseRequestURI sample_env ''/api/vdc/5'' = Some \<lparr>URL_Path = ''/api/vdc/5'', URL_rest = ()\<rparr>
   \<and> (\<exists>res. mergeAllMetadata sample_env accepting_client ''/api/vdc/5'' sample_metadata [] =
     (Returned res,
      [TaskRequested
           \<lparr>pathURL = ''/api/vdc/5/metadata'',
             requestType = ''POST'',
             contentType = MimeMetaData sample_types,
             errorMessage = ''error adding metadata: %s'',
             request_payload = payload_Metadata
               \<lparr>Metadata_Xmlns = XMLNamespaceVCloud sample_types,
                 Metadata_Xsi = XMLNamespaceXSI sample_types,
                 Metadata_MetadataEntry =
                   [\<lparr>MetadataEntry_Xmlns = XMLNamespaceVCloud sample_types,
                      MetadataEntry_Xsi = XMLNamespaceXSI sample_types,
                      MetadataEntry_Key = ''env'',
                      MetadataEntry_TypedValue =
                        Some \<lparr>MetadataTypedValue_XsiType = ''MetadataStringValue'',
                              MetadataTypedValue_Value = ''prod''\<rparr>,
                      MetadataEntry_Domain =
                        Some \<lparr>MetadataDomainTag_Visibility = ''READWRITE'',
                              MetadataDomainTag_Domain = ''GENERAL''\<rparr>\<rparr>,
                    \<lparr>MetadataEntry_Xmlns = XMLNamespaceVCloud sample_types,
                      MetadataEntry_Xsi = XMLNamespaceXSI sample_types,
                      MetadataEntry_Key = ''tier'',
                      MetadataEntry_TypedValue =
                        Some \<lparr>MetadataTypedValue_XsiType = ''MetadataNumberValue'',
                              MetadataTypedValue_Value = ''3''\<rparr>,
                      MetadataEntry_Domain =
                        Some \<lparr>MetadataDomainTag_Visibility = ''READWRITE'',
                              MetadataDomainTag_Domain = ''SYSTEM''\<rparr>\<rparr>]\<rparr>\<rparr>]))"
proof -
  have p: "urlParseRequestURI sample_env ''/api/vdc/5''
             = Some \<lparr>URL_Path = ''/api/vdc/5'', URL_rest = ()\<rparr>"
    by (simp add: sample_parse)
  show ?thesis
    using p mergeAllMetadata_request [OF p, of accepting_client sample_metadata "[]"]
    by (simp add: sample_env_def sample_types_def sample_metadata_def)
qed

text \<open>
  C9. As stated, the claim fails on an href that does not parse: with the empty map too,
  \<open>mergeAllMetadata\<close> panics on the nil URL, issues no POST and returns no task.
\<close>

theorem mergeAllMetadata_empty_unparsed_href_panics:
  "mergeAllMetadata sample_env accepting_client '''' [] [] = (NilDereference, [])"
  by (simp add: mergeAllMetadata_eq sample_built_url)

text \<open>
  C9, amended. For the empty map and an href that \<open>urlParseRequestURI\<close> parses,
  \<open>mergeAllMetadata\<close> still sends its POST, with an empty entry list in the body, and
  returns the task and the error that the request answers.
\<close>

theorem mergeAllMetadata_empty:
  "urlParseRequestURI env href = Some u \<Longrightarrow>
   mergeAllMetadata env client href [] h =
     (Returned (taskAnswer client
        \<lparr>pathURL = URL_String env (u\<lparr>URL_Path := URL_Path u @ ''/metadata''\<rparr>),
          requestType = ''POST'',
          contentType = MimeMetaData (types env),
          errorMessage = ''error adding metadata: %s'',
          request_payload = payload_Metadata
            \<lparr>Metadata_Xmlns = XMLNamespaceVCloud (types env),
              Metadata_Xsi = XMLNamespaceXSI (types env),
              Metadata_MetadataEntry = []\<rparr>\<rparr> h),
      h @ [TaskRequested
        \<lparr>pathURL = URL_String env (u\<lparr>URL_Path := URL_Path u @ ''/metadata''\<rparr>),
          requestType = ''POST'',
          contentType = MimeMetaData (types env),
          errorMessage = ''error adding metadata: %s'',
          request_payload = payload_Metadata
            \<lparr>Metadata_Xmlns = XMLNamespaceVCloud (types env),
              Metadata_Xsi = XMLNamespaceXSI (types env),
              Metadata_MetadataEntry = []\<rparr>\<rparr>])"
  by (simp add: mergeAllMetadata_eq built_url_Some Let_def)

text \<open>
  On the sample resource \<open>/api/vdc/5\<close>: the accepting client answers task 7 and no
  error, the rejecting client answers its error, and both are returned.
\<close>

theorem mergeAllMetadata_empty_witness:
  "urlParseRequestURI sample_env ''/api/vdc/5'' = Some \<lparr>URL_Path = ''/api/vdc/5'', URL_rest = ()\<rparr>
   \<and> mergeAllMetadata sample_env accepting_client ''/api/vdc/5'' [] [] =
     (Returned (7, None),
      [TaskRequested
        \<lparr>pathURL = ''/api/vdc/5/metadata'',
          requestType = ''POST'',
          contentType = MimeMetaData sample_types,
          errorMessage = ''error adding metadata: %s'',
          request_payload = payload_Metadata
            \<lparr>Metadata_Xmlns = XMLNamespaceVCloud sample_types,
              Metadata_Xsi = XMLNamespaceXSI sample_types,
              Metadata_MetadataEntry = []\<rparr>\<rparr>])
   \<and> fst (mergeAllMetadata sample_env rejecting_client ''/api/vdc/5'' [] []) =
       Returned (0, Some (errorString ''API Error: 500: [ 0 ] visibility''))"
proof -
  have p: "urlParseRequestURI sample_env ''/api/vdc/5''
             = Some \<lparr>URL_Path = ''/api/vdc/5'', URL_rest = ()\<rparr>"
    by (simp add: sample_parse)
  show ?thesis
    using p mergeAllMetadata_empty [OF p, of accepting_client "[]"]
      mergeAllMetadata_empty [OF p, of rejecting_client "[]"]
    by (simp add: sample_env_def sample_types_def accepting_client_def rejecting_client_def)
qed

subsection \<open>Delete\<close>

text \<open>
  C6. As stated, for every href, the claim fails: on an href that does not parse, such
  as the relative path \<open>api/vdc/5\<close>, \<open>deleteMetadata\<close> panics on the nil URL and issues
  no DELETE.
\<close>

theorem deleteMetadata_unparsed_href_panics:
  "deleteMetadata sample_env accepting_client ''api/vdc/5'' ''env'' False [] = (NilDereference, [])"
  by (simp add: deleteMetadata_eq sample_built_url)

text \<open>
  C6, amended. For every href that \<open>urlParseRequestURI\<close> parses, and every key and
  \<open>isSystem\<close>, \<open>deleteMetadata\<close> returns after exactly one request, a DELETE with a nil
  body, to the parsed href with \<open>/metadata/SYSTEM/<key>\<close> appended to its path when
  \<open>isSystem\<close> and \<open>/metadata/<key>\<close> otherwise; \<open>addMetadata\<close> sends its request to the
  same URL for the same href, key and \<open>isSystem\<close>.
\<close>

theorem deleteMetadata_request_path:
  "urlParseRequestURI env href = Some u \<Longrightarrow>
   (\<exists>res. deleteMetadata env client href key isSystem h =
     (Returned res,
      h @ [TaskRequested
           \<lparr>pathURL = URL_String env
                (u\<lparr>URL_Path := URL_Path u
                      @ (if isSystem then ''/metadata/SYSTEM/'' else ''/metadata/'') @ key\<rparr>),
             requestType = ''DELETE'', contentType = '''',
             errorMessage = ''error deleting metadata: %s'',
             request_payload = payload_nil\<rparr>]))
   \<and> requested_urls (snd (deleteMetadata env client href key isSystem h))
     = requested_urls (snd (addMetadata env client' href key val typedValue visibility isSystem h))
   \<and> requested_urls (snd (addMetadata env client' href key val typedValue visibility isSystem h))
     = requested_urls h @
         [URL_String env
            (u\<lparr>URL_Path := URL_Path u
                  @ (if isSystem then ''/metadata/SYSTEM/'' else ''/metadata/'') @ key\<rparr>)]"
  by (simp add: deleteMetadata_eq addMetadata_eq built_url_Some Let_def)

text \<open>On the sample resource \<open>/api/vdc/5\<close>, in the system domain.\<close>

theorem deleteMetadata_request_path_witness:
  "urlParseRequestURI sample_env ''/api/vdc/5'' = Some \<lparr>URL_Path = ''/api/vdc/5'', URL_rest = ()\<rparr>
   \<and> deleteMetadata sample_env accepting_client ''/api/vdc/5'' ''env'' True [] =
     (Returned (8, None),
      [TaskRequested
           \<lparr>pathURL = ''/api/vdc/5/metadata/SYSTEM/env'',
             requestType = ''DELETE'', contentType = '''',
             errorMessage = ''error deleting metadata: %s'',
             request_payload = payload_nil\<rparr>])
   \<and> requested_urls (snd (addMetadata sample_env accepting_client ''/api/vdc/5'' ''env'' ''prod''
         ''MetadataStringValue'' ''READONLY'' True [])) = [''/api/vdc/5/metadata/SYSTEM/env'']"
proof -
  have p: "urlParseRequestURI sample_env ''/api/vdc/5''
             = Some \<lparr>URL_Path = ''/api/vdc/5'', URL_rest = ()\<rparr>"
    by (simp add: sample_parse)
  show ?thesis
    using p deleteMetadata_request_path [OF p, of accepting_client "''env''" True "[]"
        accepting_client "''prod''" "''MetadataStringValue''" "''READONLY''"]
    by (simp add: deleteMetadata_eq addMetadata_eq sample_built_url accepting_client_def Let_def)
qed

subsection \<open>Namespace declarations\<close>

text \<open>
  C10. Every write payload that is sent declares both namespaces: on an href that
  parses, the one request of \<open>addMetadata\<close> carries a \<open>MetadataValue\<close> with both
  namespace fields set, and the one request of \<open>mergeAllMetadata\<close> carries a
  \<open>Metadata\<close> with both fields set on it and on every entry, one entry per item. On an
  href that does not parse neither function sends anything.
\<close>

theorem write_payload_namespaces:
  "(urlParseRequestURI env href = Some u \<longrightarrow>
      (\<exists>res r mv. addMetadata env client href key val typedValue visibility isSystem h
                    = (Returned res, h @ [TaskRequested r])
        \<and> request_payload r = payload_MetadataValue mv
        \<and> MetadataValue_Xmlns mv = XMLNamespaceVCloud (types env)
        \<and> MetadataValue_Xsi mv = XMLNamespaceXSI (types env))
      \<and> (\<exists>res r m. mergeAllMetadata env client href metadata h
                    = (Returned res, h @ [TaskRequested r])
        \<and> request_payload r = payload_Metadata m
        \<and> Metadata_Xmlns m = XMLNamespaceVCloud (types env)
        \<and> Metadata_Xsi m = XMLNamespaceXSI (types env)
        \<and> length (Metadata_MetadataEntry m) = length metadata
        \<and> list_all (\<lambda>e. MetadataEntry_Xmlns e = XMLNamespaceVCloud (types env)
                        \<and> MetadataEntry_Xsi e = XMLNamespaceXSI (types env))
             (Metadata_MetadataEntry m)))
   \<and> (urlParseRequestURI env href = None \<longrightarrow>
        snd (addMetadata env client href key val typedValue visibility isSystem h) = h
        \<and> snd (mergeAllMetadata env client href metadata h) = h)"
  by (simp add: addMetadata_eq mergeAllMetadata_eq built_url_def Let_def list_all_iff split_beta)

text \<open>On the sample resource \<open>/api/vdc/5\<close> and on the empty href.\<close>

theorem write_payload_namespaces_witness:
  "urlParseRequestURI sample_env ''/api/vdc/5'' = Some \<lparr>URL_Path = ''/api/vdc/5'', URL_rest = ()\<rparr>
   \<and> (\<exists>res r mv. addMetadata sample_env accepting_client ''/api/vdc/5'' ''env'' ''prod''
                     ''MetadataStringValue'' ''READONLY'' False []
                    = (Returned res, [TaskRequested r])
        \<and> request_payload r = payload_MetadataValue mv
        \<and> MetadataValue_Xmlns mv = ''http://www.vmware.com/vcloud/v1.5''
        \<and> MetadataValue_Xsi mv = ''http://www.w3.org/2001/XMLSchema-instance'')
   \<and> (\<exists>res r m. mergeAllMetadata sample_env accepting_client ''/api/vdc/5'' sample_metadata []
                    = (Returned res, [TaskRequested r])
        \<and> request_payload r = payload_Metadata m
        \<and> Metadata_Xmlns m = ''http://www.vmware.com/vcloud/v1.5''
        \<and> Metadata_Xsi m = ''http://www.w3.org/2001/XMLSchema-instance''
        \<and> length (Metadata_MetadataEntry m) = 2
        \<and> list_all (\<lambda>e. MetadataEntry_Xmlns e = ''http://www.vmware.com/vcloud/v1.5''
                        \<and> MetadataEntry_Xsi e = ''http://www.w3.org/2001/XMLSchema-instance'')
             (Metadata_MetadataEntry m))
   \<and> urlParseRequestURI sample_env '''' = None
   \<and> snd (addMetadata sample_env accepting_client '''' ''env'' ''prod''
              ''MetadataStringValue'' ''READONLY'' False []) = []
   \<and> snd (mergeAllMetadata sample_env accepting_client '''' sample_metadata []) = []"
proof -
  have p: "urlParseRequestURI sample_env ''/api/vdc/5''
             = Some \<lparr>URL_Path = ''/api/vdc/5'', URL_rest = ()\<rparr>"
    and n: "urlParseRequestURI sample_env '''' = None"
    by (simp_all add: sample_parse)
  have t: "XMLNamespaceVCloud (types sample_env) = ''http://www.vmware.com/vcloud/v1.5''"
          "XMLNamespaceXSI (types sample_env) = ''http://www.w3.org/2001/XMLSchema-instance''"
          "length sample_metadata = 2"
    by (simp_all add: sample_env_def sample_types_def sample_metadata_def)
  show ?thesis
    using p n
      write_payload_namespaces [THEN conjunct1, THEN mp, OF p, of accepting_client
        "''env''" "''prod''" "''MetadataStringValue''" "''READONLY''" False "[]" sample_metadata]
      write_payload_namespaces [THEN conjunct2, THEN mp, OF n, of accepting_client
        "''env''" "''prod''" "''MetadataStringValue''" "''READONLY''" False "[]" sample_metadata]
    unfolding t by simp
qed

subsection \<open>Error translation of Add\<close>

text \<open>
  C1. The claim: when the task request fails with a message ending in \<open>visibility\<close>,
  the error of \<open>addMetadata\<close> names the key, the requested visibility and the resolved
  domain tag (\<open>SYSTEM\<close> or \<open>GENERAL\<close>), followed by the original message. The code
  formats ``when domain is'' with the local \<open>domain\<close>, which it reads from
  \<open>newMetadata.Domain.Visibility\<close>: the message repeats the visibility and does not
  name the domain. Evaluated on the request of the spec's scenario, key \<open>secret\<close> with
  visibility \<open>READWRITE\<close> in the system domain, rejected by the server: the message has
  \<open>READWRITE\<close> in the place of the domain, and neither \<open>SYSTEM\<close> nor \<open>GENERAL\<close>
  anywhere.
\<close>

theorem addMetadata_visibility_error_repeats_visibility:
  "fst (addMetadata sample_env rejecting_client ''/api/vApp/vapp-1'' ''secret'' ''x''
         ''MetadataStringValue'' ''READWRITE'' True [])
   = Returned (0, Some (errorString ''error adding metadata with key secret: visibility cannot be READWRITE when domain is READWRITE: API Error: 500: [ 0 ] visibility''))
   \<and> sublist ''SYSTEM'' ''error adding metadata with key secret: visibility cannot be READWRITE when domain is READWRITE: API Error: 500: [ 0 ] visibility'' = False
   \<and> sublist ''GENERAL'' ''error adding metadata with key secret: visibility cannot be READWRITE when domain is READWRITE: API Error: 500: [ 0 ] visibility'' = False"
  by (simp add: addMetadata_eq sample_built_url rejecting_client_def Let_def
      suffix_to_prefix sublist_code(3))

subsection \<open>The synchronous wrappers\<close>

text \<open>
  C7. Each of \<open>addMetadataAndWait\<close>, \<open>mergeMetadataAndWait\<close> and
  \<open>deleteMetadataAndWait\<close>: when the underlying call returns an error, the wrapper
  returns that error and leaves the history as the underlying call left it, so the task
  is not waited for; when the underlying call returns no error, the wrapper waits once
  for the returned task and returns the outcome of the wait as it is. In both cases the
  underlying call has added exactly one request to the history, so nothing is sent
  twice. When the underlying call panics, the wrapper panics with it: nothing was sent
  and nothing is waited for.
\<close>

theorem AndWait_propagation:
  "(addMetadata env client href key val typedValue visibility isSystem h
      = (Returned (task, Some err), h')
      \<longrightarrow> addMetadataAndWait env client href key val typedValue visibility isSystem h
            = (Returned (Some err), h')
          \<and> (\<exists>r. h' = h @ [TaskRequested r]))
   \<and> (addMetadata env client href key val typedValue visibility isSystem h
      = (Returned (task, None), h')
      \<longrightarrow> addMetadataAndWait env client href key val typedValue visibility isSystem h
            = (Returned (waitAnswer env task h'), h' @ [Waited task])
          \<and> (\<exists>r. h' = h @ [TaskRequested r]))
   \<and> (addMetadata env client href key val typedValue visibility isSystem h = (NilDereference, h')
      \<longrightarrow> addMetadataAndWait env client href key val typedValue visibility isSystem h
            = (NilDereference, h')
          \<and> h' = h)
   \<and> (mergeAllMetadata env client href metadata h = (Returned (task, Some err), h')
      \<longrightarrow> mergeMetadataAndWait env client href metadata h = (Returned (Some err), h')
          \<and> (\<exists>r. h' = h @ [TaskRequested r]))
   \<and> (mergeAllMetadata env client href metadata h = (Returned (task, None), h')
      \<longrightarrow> mergeMetadataAndWait env client href metadata h
            = (Returned (waitAnswer env task h'), h' @ [Waited task])
          \<and> (\<exists>r. h' = h @ [TaskRequested r]))
   \<and> (mergeAllMetadata env client href metadata h = (NilDereference, h')
      \<longrightarrow> mergeMetadataAndWait env client href metadata h = (NilDereference, h')
          \<and> h' = h)
   \<and> (deleteMetadata env client href key isSystem h = (Returned (task, Some err), h')
      \<longrightarrow> deleteMetadataAndWait env client href key isSystem h = (Returned (Some err), h')
          \<and> (\<exists>r. h' = h @ [TaskRequested r]))
   \<and> (deleteMetadata env client href key isSystem h = (Returned (task, None), h')
      \<longrightarrow> deleteMetadataAndWait env client href key isSystem h
            = (Returned (waitAnswer env task h'), h' @ [Waited task])
          \<and> (\<exists>r. h' = h @ [TaskRequested r]))
   \<and> (deleteMetadata env client href key isSystem h = (NilDereference, h')
      \<longrightarrow> deleteMetadataAndWait env client href key isSystem h = (NilDereference, h')
          \<and> h' = h)"
proof -
  have a: "\<exists>r. h' = h @ [TaskRequested r]"
    if "addMetadata env client href key val typedValue visibility isSystem h = (Returned x, h')"
    for x
    using that by (auto simp: addMetadata_eq Let_def split: option.splits)
  have a0: "h' = h"
    if "addMetadata env client href key val typedValue visibility isSystem h = (NilDereference, h')"
    using that by (auto simp: addMetadata_eq Let_def split: option.splits)
  have m: "\<exists>r. h' = h @ [TaskRequested r]"
    if "mergeAllMetadata env client href metadata h = (Returned x, h')" for x
    using that by (auto simp: mergeAllMetadata_eq Let_def split: option.splits)
  have m0: "h' = h"
    if "mergeAllMetadata env client href metadata h = (NilDereference, h')"
    using that by (auto simp: mergeAllMetadata_eq Let_def split: option.splits)
  have d: "\<exists>r. h' = h @ [TaskRequested r]"
    if "deleteMetadata env client href key isSystem h = (Returned x, h')" for x
    using that by (auto simp: deleteMetadata_eq Let_def split: option.splits)
  have d0: "h' = h"
    if "deleteMetadata env client href key isSystem h = (NilDereference, h')"
    using that by (auto simp: deleteMetadata_eq Let_def split: option.splits)
  show ?thesis
    using a a0 m m0 d d0
    by (simp add: addMetadataAndWait_then_wait mergeMetadataAndWait_then_wait
        deleteMetadataAndWait_then_wait then_wait_simps)
qed

text \<open>
  The wrappers on the two sample clients and the sample resource \<open>/api/vdc/5\<close>: the
  rejected delete, add and merge return the error of the request without waiting; the
  accepted ones wait for task 8 (which fails) or task 7 (which succeeds) and return that
  outcome. On the empty href all three panic with an empty history.
\<close>

theorem AndWait_propagation_witness:
  "(let e = errorString ''API Error: 500: [ 0 ] visibility'';
        e' = errorString ''error adding metadata with key env: visibility cannot be READWRITE when domain is READWRITE: API Error: 500: [ 0 ] visibility'';
        del = \<lparr>pathURL = ''/api/vdc/5/metadata/env'', requestType = ''DELETE'',
                contentType = '''', errorMessage = ''error deleting metadata: %s'',
                request_payload = payload_nil\<rparr>;
        not_added = snd (addMetadata sample_env rejecting_client ''/api/vdc/5'' ''env'' ''prod''
                       ''MetadataStringValue'' ''READWRITE'' False []);
        added = snd (addMetadata sample_env accepting_client ''/api/vdc/5'' ''env'' ''prod''
                       ''MetadataStringValue'' ''READWRITE'' False []);
        not_merged = snd (mergeAllMetadata sample_env rejecting_client ''/api/vdc/5''
                       sample_metadata []);
        merged = snd (mergeAllMetadata sample_env accepting_client ''/api/vdc/5''
                       sample_metadata [])
    in deleteMetadata sample_env rejecting_client ''/api/vdc/5'' ''env'' False []
         = (Returned (0, Some e), [TaskRequested del])
     \<and> deleteMetadataAndWait sample_env rejecting_client ''/api/vdc/5'' ''env'' False []
         = (Returned (Some e), [TaskRequested del])
     \<and> deleteMetadata sample_env accepting_client ''/api/vdc/5'' ''env'' False []
         = (Returned (8, None), [TaskRequested del])
     \<and> deleteMetadataAndWait sample_env accepting_client ''/api/vdc/5'' ''env'' False []
         = (Returned (Some (errorString ''task failed'')), [TaskRequested del, Waited 8])
     \<and> deleteMetadata sample_env accepting_client '''' ''env'' False [] = (NilDereference, [])
     \<and> deleteMetadataAndWait sample_env accepting_client '''' ''env'' False []
         = (NilDereference, [])
     \<and> addMetadata sample_env rejecting_client ''/api/vdc/5'' ''env'' ''prod''
           ''MetadataStringValue'' ''READWRITE'' False [] = (Returned (0, Some e'), not_added)
     \<and> addMetadataAndWait sample_env rejecting_client ''/api/vdc/5'' ''env'' ''prod''
           ''MetadataStringValue'' ''READWRITE'' False [] = (Returned (Some e'), not_added)
     \<and> addMetadata sample_env accepting_client ''/api/vdc/5'' ''env'' ''prod''
           ''MetadataStringValue'' ''READWRITE'' False [] = (Returned (7, None), added)
     \<and> addMetadataAndWait sample_env accepting_client ''/api/vdc/5'' ''env'' ''prod''
           ''MetadataStringValue'' ''READWRITE'' False [] = (Returned None, added @ [Waited 7])
     \<and> addMetadata sample_env accepting_client '''' ''env'' ''prod''
           ''MetadataStringValue'' ''READWRITE'' False [] = (NilDereference, [])
     \<and> addMetadataAndWait sample_env accepting_client '''' ''env'' ''prod''
           ''MetadataStringValue'' ''READWRITE'' False [] = (NilDereference, [])
     \<and> mergeAllMetadata sample_env rejecting_client ''/api/vdc/5'' sample_metadata []
         = (Returned (0, Some e), not_merged)
     \<and> mergeMetadataAndWait sample_env rejecting_client ''/api/vdc/5'' sample_metadata []
         = (Returned (Some e), not_merged)
     \<and> mergeAllMetadata sample_env accepting_client ''/api/vdc/5'' sample_metadata []
         = (Returned (7, None), merged)
     \<and> mergeMetadataAndWait sample_env accepting_client ''/api/vdc/5'' sample_metadata []
         = (Returned None, merged @ [Waited 7])
     \<and> mergeAllMetadata sample_env accepting_client '''' sample_metadata []
         = (NilDereference, [])
     \<and> mergeMetadataAndWait sample_env accepting_client '''' sample_metadata []
         = (NilDereference, []))"
proof -
  let ?e = "errorString ''API Error: 500: [ 0 ] visibility''"
  let ?e' = "errorString ''error adding metadata with key env: visibility cannot be READWRITE when domain is READWRITE: API Error: 500: [ 0 ] visibility''"
  let ?del = "\<lparr>pathURL = ''/api/vdc/5/metadata/env'', requestType = ''DELETE'',
                contentType = '''', errorMessage = ''error deleting metadata: %s'',
                request_payload = payload_nil\<rparr>"
  have d0: "deleteMetadata sample_env rejecting_client ''/api/vdc/5'' ''env'' False []
      = (Returned (0, Some ?e), [TaskRequested ?del])"
    by (simp add: deleteMetadata_eq sample_built_url Let_def rejecting_client_def)
  have d1: "deleteMetadata sample_env accepting_client ''/api/vdc/5'' ''env'' False []
      = (Returned (8, None), [TaskRequested ?del])"
    by (simp add: deleteMetadata_eq sample_built_url Let_def accepting_client_def)
  have d2: "deleteMetadata sample_env accepting_client '''' ''env'' False [] = (NilDereference, [])"
    by (simp add: deleteMetadata_eq sample_built_url)
  have m0: "mergeAllMetadata sample_env rejecting_client ''/api/vdc/5'' sample_metadata []
      = (Returned (0, Some ?e),
         snd (mergeAllMetadata sample_env rejecting_client ''/api/vdc/5'' sample_metadata []))"
    by (simp add: mergeAllMetadata_eq sample_built_url Let_def rejecting_client_def)
  have m1: "mergeAllMetadata sample_env accepting_client ''/api/vdc/5'' sample_metadata []
      = (Returned (7, None),
         snd (mergeAllMetadata sample_env accepting_client ''/api/vdc/5'' sample_metadata []))"
    by (simp add: mergeAllMetadata_eq sample_built_url Let_def accepting_client_def)
  have m2: "mergeAllMetadata sample_env accepting_client '''' sample_metadata []
      = (NilDereference, [])"
    by (simp add: mergeAllMetadata_eq sample_built_url)
  have a0: "addMetadata sample_env rejecting_client ''/api/vdc/5'' ''env'' ''prod''
           ''MetadataStringValue'' ''READWRITE'' False []
      = (Returned (0, Some ?e'),
         snd (addMetadata sample_env rejecting_client ''/api/vdc/5'' ''env'' ''prod''
           ''MetadataStringValue'' ''READWRITE'' False []))"
    by (simp add: addMetadata_eq built_url_def Let_def rejecting_client_def sample_env_def
        sample_types_def suffix_to_prefix)
  have a1: "addMetadata sample_env accepting_client ''/api/vdc/5'' ''env'' ''prod''
           ''MetadataStringValue'' ''READWRITE'' False []
      = (Returned (7, None),
         snd (addMetadata sample_env accepting_client ''/api/vdc/5'' ''env'' ''prod''
           ''MetadataStringValue'' ''READWRITE'' False []))"
    by (simp add: addMetadata_eq sample_built_url Let_def accepting_client_def)
  have a2: "addMetadata sample_env accepting_client '''' ''env'' ''prod''
           ''MetadataStringValue'' ''READWRITE'' False [] = (NilDereference, [])"
    by (simp add: addMetadata_eq sample_built_url)
  have w: "waitAnswer sample_env 8 hh = Some (errorString ''task failed'')"
          "waitAnswer sample_env 7 hh = None" for hh
    by (simp_all add: sample_env_def)
  note c = AndWait_propagation
  show ?thesis
    unfolding Let_def
    using d0 d1 d2 m0 m1 m2 a0 a1 a2 w
      c [THEN conjunct1, THEN mp, OF a0]
      c [THEN conjunct2, THEN conjunct1, THEN mp, OF a1]
      c [THEN conjunct2, THEN conjunct2, THEN conjunct1, THEN mp, OF a2]
      c [THEN conjunct2, THEN conjunct2, THEN conjunct2, THEN conjunct1, THEN mp, OF m0]
      c [THEN conjunct2, THEN conjunct2, THEN conjunct2, THEN conjunct2, THEN conjunct1,
         THEN mp, OF m1]
      c [THEN conjunct2, THEN conjunct2, THEN conjunct2, THEN conjunct2, THEN conjunct2,
         THEN conjunct1, THEN mp, OF m2]
      c [THEN conjunct2, THEN conjunct2, THEN conjunct2, THEN conjunct2, THEN conjunct2,
         THEN conjunct2, THEN conjunct1, THEN mp, OF d0]
      c [THEN conjunct2, THEN conjunct2, THEN conjunct2, THEN conjunct2, THEN conjunct2,
         THEN conjunct2, THEN conjunct2, THEN conjunct1, THEN mp, OF d1]
      c [THEN conjunct2, THEN conjunct2, THEN conjunct2, THEN conjunct2, THEN conjunct2,
         THEN conjunct2, THEN conjunct2, THEN conjunct2, THEN mp, OF d2]
    by simp
qed

subsection \<open>AdminVdc: the two delete variants\<close>




subsection \<open>OrgVDCNetwork: reads and writes\<close>




end
